theory Spec2Isabelle
  imports Main
begin

section \<open>Data model\<close>

subsection \<open>The interfaces of \<open>interfaces/IUser\<close>\<close>

text \<open>
  \<open>IUser\<close> as the interface declares it. The optional members are \<open>option\<close>s. The member
  \<open>id\<close> is written \<open>id'\<close> (HOL's identity function has the name), an id and a timestamp
  are the strings the store's JSON carries.
\<close>

record IUser =
  id' :: string
  name :: string
  email :: string
  password :: string
  salt :: string
  role :: "string option"
  created_at :: "string option"
  updated_at :: "string option"
  lastLogin :: "string option"

text \<open>\<open>IUserInputDTO\<close>, and the argument type of \<open>create\<close>:
  \<open>IUserInputDTO & { salt: string; password: string }\<close>, which adds \<open>salt\<close>.\<close>

record IUserInputDTO =
  dto_name :: string
  dto_email :: string
  dto_password :: string

record userData = IUserInputDTO +
  dto_salt :: string

text \<open>\<open>Partial<IUser>\<close>: every member of \<open>IUser\<close> may be missing. A missing member is not
  part of the JSON body the client sends.\<close>

record IUser_Partial =
  p_id :: "string option"
  p_name :: "string option"
  p_email :: "string option"
  p_password :: "string option"
  p_salt :: "string option"
  p_role :: "string option"
  p_created_at :: "string option"
  p_updated_at :: "string option"
  p_lastLogin :: "string option"

subsection \<open>The store client as the repository uses it\<close>

text \<open>
  The client answers every request with a pair \<open>{ data, error }\<close>. The error object has the
  members \<open>message\<close>, \<open>details\<close>, \<open>hint\<close> and \<open>code\<close>; the repository reads \<open>code\<close> and
  \<open>message\<close>.
\<close>

record pg_error =
  message :: string
  details :: string
  hint :: string
  code :: string

record response =
  data :: "IUser option"
  error :: "pg_error option"

text \<open>
  The three requests the repository builds, all of them on \<open>from('users')\<close>:
  \<^item> \<open>Insert_select_single v\<close> is \<open>.insert(v).select().single()\<close>;
  \<^item> \<open>Select_eq_single c x\<close> is \<open>.select('*').eq(c, x).single()\<close>;
  \<^item> \<open>Update_eq_select_single v c x\<close> is \<open>.update(v).eq(c, x).select().single()\<close>.
  The repository filters on the columns \<open>'id'\<close> and \<open>'email'\<close> only.
\<close>

datatype filter_column = Col_id | Col_email

datatype request =
    Insert_select_single userData
  | Select_eq_single filter_column string
  | Update_eq_select_single IUser_Partial filter_column string

text \<open>\<open>await\<close> on a request: the client answers and the store moves to a new state. The
  client is the constructor argument \<open>supabase\<close> of the repository.\<close>

type_synonym 'db client = "request \<Rightarrow> 'db \<Rightarrow> response \<times> 'db"

text \<open>What a call of the repository leaves behind: the value it returns or the \<open>Error\<close> it
  throws, the lines it hands to the logger, and the store.\<close>

datatype js_error = Error string

datatype log_entry = Silly string | Log_error string pg_error

record 'db outcome =
  returned :: "js_error + IUser option"
  logged :: "log_entry list"
  store :: 'db

section \<open>\<open>repositories/userRepository.ts\<close>\<close>

definition create :: "'db client \<Rightarrow> userData \<Rightarrow> 'db \<Rightarrow> 'db outcome" where
  "create supabase userData db =
    (let (r, db') = supabase (Insert_select_single userData) db in
     case error r of
       Some e \<Rightarrow>
         \<lparr>returned = Inl (Error (''Failed to create user: '' @ message e)),
          logged = [Silly ''Creating user in database'', Log_error ''Error creating user: %o'' e],
          store = db'\<rparr>
     | None \<Rightarrow>
         \<lparr>returned = Inr (data r),
          logged = [Silly ''Creating user in database''],
          store = db'\<rparr>)"

definition findByEmail :: "'db client \<Rightarrow> string \<Rightarrow> 'db \<Rightarrow> 'db outcome" where
  "findByEmail supabase email_arg db =
    (let (r, db') = supabase (Select_eq_single Col_email email_arg) db in
     case error r of
       Some e \<Rightarrow>
         if code e \<noteq> ''PGRST116'' then
           \<lparr>returned = Inl (Error (''Failed to find user by email: '' @ message e)),
            logged = [Silly ''Finding user by email'',
                      Log_error ''Error finding user by email: %o'' e],
            store = db'\<rparr>
         else
           \<lparr>returned = Inr (data r),
            logged = [Silly ''Finding user by email''],
            store = db'\<rparr>
     | None \<Rightarrow>
         \<lparr>returned = Inr (data r),
          logged = [Silly ''Finding user by email''],
          store = db'\<rparr>)"

definition findById :: "'db client \<Rightarrow> string \<Rightarrow> 'db \<Rightarrow> 'db outcome" where
  "findById supabase id_arg db =
    (let (r, db') = supabase (Select_eq_single Col_id id_arg) db in
     case error r of
       Some e \<Rightarrow>
         if code e \<noteq> ''PGRST116'' then
           \<lparr>returned = Inl (Error (''Failed to find user by id: '' @ message e)),
            logged = [Silly ''Finding user by id'',
                      Log_error ''Error finding user by id: %o'' e],
            store = db'\<rparr>
         else
           \<lparr>returned = Inr (data r),
            logged = [Silly ''Finding user by id''],
            store = db'\<rparr>
     | None \<Rightarrow>
         \<lparr>returned = Inr (data r),
          logged = [Silly ''Finding user by id''],
          store = db'\<rparr>)"

definition update :: "'db client \<Rightarrow> string \<Rightarrow> IUser_Partial \<Rightarrow> 'db \<Rightarrow> 'db outcome" where
  "update supabase id_arg updateData db =
    (let (r, db') = supabase (Update_eq_select_single updateData Col_id id_arg) db in
     case error r of
       Some e \<Rightarrow>
         \<lparr>returned = Inl (Error (''Failed to update user: '' @ message e)),
          logged = [Silly ''Updating user in database'', Log_error ''Error updating user: %o'' e],
          store = db'\<rparr>
     | None \<Rightarrow>
         \<lparr>returned = Inr (data r),
          logged = [Silly ''Updating user in database''],
          store = db'\<rparr>)"

section \<open>The \<open>users\<close> table of \<open>migrations/001_create_users_table.sql\<close>\<close>

text \<open>
  The store is a hosted Postgres behind a REST gateway; the repository only sees the
  answers. What follows is the table the migration creates, at the level its statements
  fix: the columns and their defaults, the primary key, the \<open>UNIQUE\<close> constraint on
  \<open>email\<close>, the \<open>VARCHAR\<close> limits, the three row policies and the \<open>updated_at\<close> trigger.
  The column \<open>lastLogin\<close> of \<open>IUser\<close> does not exist in the table, so it is \<open>None\<close> in every
  row.

  \<open>rls\<close> says whether the row policies apply to the client (they do not when they are
  absent, disabled, or bypassed by the key the client holds).

  A statement that fails leaves the table as it was. Where a statement breaks several
  rules at once, the order below decides which error is reported; no property depends on
  that order except where it names the one rule that is broken.
\<close>

record users_db =
  rows :: "IUser list"
  rls :: bool

text \<open>
  What one statement takes from outside the table:
  \<^item> \<open>auth_uid\<close>: the value of \<open>auth.uid()\<close>, the subject of the token the client sends;
    \<open>None\<close> (SQL \<open>NULL\<close>) for a client that holds only the anonymous key, as the one of
    \<open>loaders/supabase\<close> does;
  \<^item> \<open>uuid_generate_v4\<close> and \<open>now\<close>: what the column defaults and the trigger evaluate to;
  \<^item> \<open>uuid_in\<close> and \<open>timestamptz_in\<close>: the text input of the column types \<open>UUID\<close> and
    \<open>TIMESTAMP WITH TIME ZONE\<close>, to the text the store prints (\<open>None\<close>: invalid syntax);
  \<^item> \<open>fault\<close>: a failure that keeps the statement from running at all (no connection, a
    timeout, a gateway error).
\<close>

record pg_env =
  auth_uid :: "string option"
  uuid_generate_v4 :: string
  now :: string
  uuid_in :: "string \<Rightarrow> string option"
  timestamptz_in :: "string \<Rightarrow> string option"
  fault :: "pg_error option"

text \<open>An answer that is an error with the given code and message.\<close>

definition pg_fail :: "string \<Rightarrow> string \<Rightarrow> response" where
  "pg_fail c m = \<lparr>data = None, error = Some \<lparr>message = m, details = [], hint = [], code = c\<rparr>\<rparr>"

text \<open>The store's messages, with the name or value they quote.\<close>

definition quoted :: "string \<Rightarrow> string" where
  "quoted s = CHR 0x22 # s @ [CHR 0x22]"

definition squoted :: "string \<Rightarrow> string" where
  "squoted s = CHR 0x27 # s @ [CHR 0x27]"

definition unique_violation :: "string \<Rightarrow> response" where
  "unique_violation constraint_name =
     pg_fail ''23505'' (''duplicate key value violates unique constraint '' @ quoted constraint_name)"

definition rls_violation :: response where
  "rls_violation =
     pg_fail ''42501'' (''new row violates row-level security policy for table '' @ quoted ''users'')"

definition decimal_digit :: "nat \<Rightarrow> char" where
  "decimal_digit n = ''0123456789'' ! (n mod 10)"

fun decimal :: "nat \<Rightarrow> string" where
  "decimal n = (if n < 10 then [decimal_digit n] else decimal (n div 10) @ [decimal_digit n])"

declare decimal.simps [simp del]

definition value_too_long :: "nat \<Rightarrow> response" where
  "value_too_long n =
     pg_fail ''22001'' (''value too long for type character varying('' @ decimal n @ '')'')"

definition not_text :: response where
  "not_text = pg_fail ''22P05'' ''unsupported Unicode escape sequence''"

definition invalid_uuid :: "string \<Rightarrow> response" where
  "invalid_uuid s = pg_fail ''22P02'' (''invalid input syntax for type uuid: '' @ quoted s)"

definition invalid_timestamp :: "string \<Rightarrow> response" where
  "invalid_timestamp s =
     pg_fail ''22007'' (''invalid input syntax for type timestamp with time zone: '' @ quoted s)"

definition unknown_column :: "string \<Rightarrow> response" where
  "unknown_column c =
     pg_fail ''PGRST204''
       (''Could not find the '' @ squoted c @ '' column of '' @ squoted ''users''
        @ '' in the schema cache'')"

text \<open>\<open>.single()\<close>: exactly one row is the answer; none or several is the error \<open>PGRST116\<close>.\<close>

definition single :: "IUser list \<Rightarrow> response" where
  "single rs =
     (case rs of
        [r] \<Rightarrow> \<lparr>data = Some r, error = None\<rparr>
      | _ \<Rightarrow> pg_fail ''PGRST116'' ''JSON object requested, multiple (or no) rows returned'')"

text \<open>The three policies of the migration have one condition: \<open>auth.uid() = id\<close>.\<close>

definition policy :: "pg_env \<Rightarrow> users_db \<Rightarrow> IUser \<Rightarrow> bool" where
  "policy env d r = (if rls d then auth_uid env = Some (id' r) else True)"

text \<open>\<open>.eq(column, x)\<close>: on \<open>id\<close> the argument is read as a \<open>UUID\<close>, on \<open>email\<close> it is compared
  as text.\<close>

definition matches :: "pg_env \<Rightarrow> filter_column \<Rightarrow> string \<Rightarrow> IUser \<Rightarrow> bool" where
  "matches env c x r = (case c of Col_id \<Rightarrow> Some (id' r) = uuid_in env x | Col_email \<Rightarrow> email r = x)"

definition bad_filter :: "pg_env \<Rightarrow> filter_column \<Rightarrow> string \<Rightarrow> response option" where
  "bad_filter env c x =
     (case c of
        Col_id \<Rightarrow> (if uuid_in env x = None then Some (invalid_uuid x) else None)
      | Col_email \<Rightarrow> None)"

definition pg_select :: "pg_env \<Rightarrow> filter_column \<Rightarrow> string \<Rightarrow> users_db \<Rightarrow> response \<times> users_db" where
  "pg_select env c x d =
     (case bad_filter env c x of
        Some e \<Rightarrow> (e, d)
      | None \<Rightarrow> (single (filter (\<lambda>r. policy env d r \<and> matches env c x r) (rows d)), d))"

text \<open>
  Text in a \<open>VARCHAR(n)\<close> column. A string is UTF-8 text, as the client sends it: a
  character is a byte that is not a continuation byte (\<open>10xxxxxx\<close>), together with the
  continuation bytes that follow it. The store counts characters, not bytes.
\<close>

definition continuation :: "char \<Rightarrow> bool" where
  "continuation c = (digit7 c \<and> \<not> digit6 c)"

definition char_length :: "string \<Rightarrow> nat" where
  "char_length s = length (filter (\<lambda>c. \<not> continuation c) s)"

text \<open>The first \<open>n\<close> characters of a string.\<close>

fun take_chars :: "nat \<Rightarrow> string \<Rightarrow> string" where
  "take_chars n [] = []"
| "take_chars n (c # cs) =
     (if continuation c then c # take_chars n cs
      else if n = 0 then []
      else c # take_chars (n - 1) cs)"

text \<open>
  What the store makes of a value assigned to a \<open>VARCHAR(n)\<close> column: text cannot hold
  the character U+0000; a value of at most \<open>n\<close> characters is stored as it is; a longer
  value is refused, unless the characters in excess are all blanks, in which case its first
  \<open>n\<close> characters are stored.
\<close>

definition varchar_in :: "nat \<Rightarrow> string \<Rightarrow> response + string" where
  "varchar_in n s =
     (if CHR 0x00 \<in> set s then Inl not_text
      else if char_length s \<le> n then Inr s
      else if list_all (\<lambda>c. c = CHR '' '') (drop (length (take_chars n s)) s)
        then Inr (take_chars n s)
      else Inl (value_too_long n))"

definition varchar_option :: "nat \<Rightarrow> string option \<Rightarrow> response + string option" where
  "varchar_option n v =
     (case v of
        None \<Rightarrow> Inr None
      | Some s \<Rightarrow> (case varchar_in n s of Inl e \<Rightarrow> Inl e | Inr s' \<Rightarrow> Inr (Some s')))"

text \<open>The members of \<open>userData\<close> as their columns take them: \<open>name\<close>, \<open>email\<close>, \<open>password\<close>
  and \<open>salt\<close> are \<open>VARCHAR(255)\<close>.\<close>

definition varchar_userData :: "userData \<Rightarrow> response + userData" where
  "varchar_userData v =
     (case varchar_in 255 (dto_name v) of
        Inl e \<Rightarrow> Inl e
      | Inr n \<Rightarrow>
         (case varchar_in 255 (dto_email v) of
            Inl e \<Rightarrow> Inl e
          | Inr m \<Rightarrow>
             (case varchar_in 255 (dto_password v) of
                Inl e \<Rightarrow> Inl e
              | Inr w \<Rightarrow>
                 (case varchar_in 255 (dto_salt v) of
                    Inl e \<Rightarrow> Inl e
                  | Inr t \<Rightarrow>
                      Inr \<lparr>dto_name = n, dto_email = m, dto_password = w, dto_salt = t\<rparr>))))"

text \<open>The row an \<open>INSERT\<close> of the repository's \<open>userData\<close> builds: the four members given,
  the other columns from their \<open>DEFAULT\<close>s.\<close>

definition new_row :: "pg_env \<Rightarrow> userData \<Rightarrow> IUser" where
  "new_row env v =
     \<lparr>id' = uuid_generate_v4 env, name = dto_name v, email = dto_email v,
      password = dto_password v, salt = dto_salt v, role = Some ''user'',
      created_at = Some (now env), updated_at = Some (now env), lastLogin = None\<rparr>"

definition pg_insert :: "pg_env \<Rightarrow> userData \<Rightarrow> users_db \<Rightarrow> response \<times> users_db" where
  "pg_insert env v d =
     (case varchar_userData v of
        Inl e \<Rightarrow> (e, d)
      | Inr taken \<Rightarrow>
         (let r = new_row env taken in
          if \<not> policy env d r then (rls_violation, d)
          else if id' r \<in> set (map id' (rows d)) then (unique_violation ''users_pkey'', d)
          else if email r \<in> set (map email (rows d))
            then (unique_violation ''users_email_key'', d)
          else (\<lparr>data = Some r, error = None\<rparr>, d\<lparr>rows := rows d @ [r]\<rparr>)))"

text \<open>The four members of \<open>userData\<close> fit their \<open>VARCHAR(255)\<close> columns: the store takes
  each of them as it is.\<close>

definition fits :: "userData \<Rightarrow> bool" where
  "fits v = (varchar_userData v = Inr v)"

text \<open>An \<open>UPDATE\<close> sets the columns the JSON body names.\<close>

definition patch_empty :: "IUser_Partial \<Rightarrow> bool" where
  "patch_empty p =
     (p_id p = None \<and> p_name p = None \<and> p_email p = None \<and> p_password p = None
      \<and> p_salt p = None \<and> p_role p = None \<and> p_created_at p = None \<and> p_updated_at p = None
      \<and> p_lastLogin p = None)"

definition check_input ::
  "(string \<Rightarrow> string option) \<Rightarrow> (string \<Rightarrow> response) \<Rightarrow> string option \<Rightarrow> response option" where
  "check_input input err v =
     (case v of None \<Rightarrow> None | Some s \<Rightarrow> (if input s = None then Some (err s) else None))"

definition bad_patch :: "pg_env \<Rightarrow> IUser_Partial \<Rightarrow> response option" where
  "bad_patch env p =
     (if p_lastLogin p \<noteq> None then Some (unknown_column ''lastLogin'')
      else case check_input (uuid_in env) invalid_uuid (p_id p) of
        Some e \<Rightarrow> Some e
      | None \<Rightarrow>
         (case check_input (timestamptz_in env) invalid_timestamp (p_created_at p) of
            Some e \<Rightarrow> Some e
          | None \<Rightarrow>
             (case check_input (timestamptz_in env) invalid_timestamp (p_updated_at p) of
                Some e \<Rightarrow> Some e
              | None \<Rightarrow> None)))"

text \<open>The text columns that the body names, as their columns take them: \<open>role\<close> is
  \<open>VARCHAR(50)\<close>, the other four \<open>VARCHAR(255)\<close>.\<close>

definition varchar_patch :: "IUser_Partial \<Rightarrow> response + IUser_Partial" where
  "varchar_patch p =
     (case varchar_option 255 (p_name p) of
        Inl e \<Rightarrow> Inl e
      | Inr n \<Rightarrow>
         (case varchar_option 255 (p_email p) of
            Inl e \<Rightarrow> Inl e
          | Inr m \<Rightarrow>
             (case varchar_option 255 (p_password p) of
                Inl e \<Rightarrow> Inl e
              | Inr w \<Rightarrow>
                 (case varchar_option 255 (p_salt p) of
                    Inl e \<Rightarrow> Inl e
                  | Inr t \<Rightarrow>
                     (case varchar_option 50 (p_role p) of
                        Inl e \<Rightarrow> Inl e
                      | Inr ro \<Rightarrow>
                          Inr \<lparr>p_id = p_id p, p_name = n, p_email = m, p_password = w,
                               p_salt = t, p_role = ro, p_created_at = p_created_at p,
                               p_updated_at = p_updated_at p, p_lastLogin = p_lastLogin p\<rparr>)))))"

definition set_columns :: "pg_env \<Rightarrow> IUser_Partial \<Rightarrow> IUser \<Rightarrow> IUser" where
  "set_columns env p r =
     \<lparr>id' = (case p_id p of None \<Rightarrow> id' r
             | Some x \<Rightarrow> (case uuid_in env x of Some u \<Rightarrow> u | None \<Rightarrow> id' r)),
      name = (case p_name p of None \<Rightarrow> name r | Some x \<Rightarrow> x),
      email = (case p_email p of None \<Rightarrow> email r | Some x \<Rightarrow> x),
      password = (case p_password p of None \<Rightarrow> password r | Some x \<Rightarrow> x),
      salt = (case p_salt p of None \<Rightarrow> salt r | Some x \<Rightarrow> x),
      role = (case p_role p of None \<Rightarrow> role r | Some x \<Rightarrow> Some x),
      created_at = (case p_created_at p of None \<Rightarrow> created_at r | Some x \<Rightarrow> timestamptz_in env x),
      updated_at = (case p_updated_at p of None \<Rightarrow> updated_at r | Some x \<Rightarrow> timestamptz_in env x),
      lastLogin = lastLogin r\<rparr>"

text \<open>The trigger function of the migration, run \<open>BEFORE UPDATE ... FOR EACH ROW\<close>:
  \<open>NEW.updated_at = NOW(); RETURN NEW\<close>.\<close>

definition update_updated_at_column :: "pg_env \<Rightarrow> IUser \<Rightarrow> IUser" where
  "update_updated_at_column env new = new\<lparr>updated_at := Some (now env)\<rparr>"

text \<open>
  The update of the rows that the policy shows and the filter selects. A body that names
  no column updates nothing, and \<open>.single()\<close> then finds no row; so does an update that
  reaches no row, and one that reaches several is undone.
\<close>

definition pg_update ::
  "pg_env \<Rightarrow> IUser_Partial \<Rightarrow> filter_column \<Rightarrow> string \<Rightarrow> users_db \<Rightarrow> response \<times> users_db" where
  "pg_update env p c x d =
     (if patch_empty p then (single [], d)
      else case bad_patch env p of
        Some e \<Rightarrow> (e, d)
      | None \<Rightarrow>
         (case varchar_patch p of
            Inl e \<Rightarrow> (e, d)
          | Inr taken \<Rightarrow>
             (case bad_filter env c x of
                Some e \<Rightarrow> (e, d)
              | None \<Rightarrow>
                 (case filter (\<lambda>r. policy env d r \<and> matches env c x r) (rows d) of
                    [old] \<Rightarrow>
                      (let new = update_updated_at_column env (set_columns env taken old);
                           others = filter (\<lambda>r. \<not> (policy env d r \<and> matches env c x r))
                                      (rows d)
                       in if \<not> policy env d new then (rls_violation, d)
                          else if id' new \<in> set (map id' others)
                            then (unique_violation ''users_pkey'', d)
                          else if email new \<in> set (map email others)
                            then (unique_violation ''users_email_key'', d)
                          else (\<lparr>data = Some new, error = None\<rparr>,
                                d\<lparr>rows := map (\<lambda>r. if policy env d r \<and> matches env c x r
                                                    then new else r) (rows d)\<rparr>))
                  | rs \<Rightarrow> (single [], d)))))"

text \<open>The client over this table.\<close>

definition users_store :: "pg_env \<Rightarrow> users_db client" where
  "users_store env q d =
     (case fault env of
        Some e \<Rightarrow> (\<lparr>data = None, error = Some e\<rparr>, d)
      | None \<Rightarrow>
         (case q of
            Insert_select_single v \<Rightarrow> pg_insert env v d
          | Select_eq_single c x \<Rightarrow> pg_select env c x d
          | Update_eq_select_single v c x \<Rightarrow> pg_update env v c x d))"

text \<open>A client that also keeps the requests it was sent, in order: what the repository
  asks of the store becomes part of the state.\<close>

definition recording :: "'db client \<Rightarrow> ('db \<times> request list) client" where
  "recording supabase q s =
     (let (r, db') = supabase q (fst s) in (r, (db', snd s @ [q])))"

section \<open>Store answers\<close>

text \<open>The store reports ``no row found'': no data, and the error code that the
  repository's comment names (\<open>PGRST116 is "not found" error\<close>). Any other error is a failure
  of the store.\<close>

definition no_row_found :: "response \<Rightarrow> bool" where
  "no_row_found r =
     (data r = None \<and> (case error r of None \<Rightarrow> False | Some e \<Rightarrow> code e = ''PGRST116''))"

definition store_failed :: "response \<Rightarrow> bool" where
  "store_failed r = (case error r of None \<Rightarrow> False | Some e \<Rightarrow> code e \<noteq> ''PGRST116'')"

section \<open>An example table\<close>

text \<open>The text input of \<open>UUID\<close> on the spelling the store prints: 8-4-4-4-12 lower-case
  hexadecimal digits. (Postgres reads further spellings of the same value; the theorems
  below hold for every \<open>uuid_in\<close>, the examples use this one.)\<close>

definition canonical_uuid :: "string \<Rightarrow> string option" where
  "canonical_uuid s =
     (if map (\<lambda>c. if c = CHR ''-'' then CHR ''-''
                   else if c \<in> set ''0123456789abcdef'' then CHR ''h'' else CHR ''?'') s
         = ''hhhhhhhh-hhhh-hhhh-hhhh-hhhhhhhhhhhh''
      then Some s else None)"

definition alice_id :: string where
  "alice_id = ''a1a1a1a1-0000-4000-8000-000000000001''"

definition bob_id :: string where
  "bob_id = ''b2b2b2b2-0000-4000-8000-000000000002''"

definition carol_id :: string where
  "carol_id = ''c3c3c3c3-0000-4000-8000-000000000003''"

definition example_env :: pg_env where
  "example_env =
     \<lparr>auth_uid = Some alice_id, uuid_generate_v4 = carol_id, now = ''2025-06-01T12:00:00+00:00'',
      uuid_in = canonical_uuid, timestamptz_in = Some, fault = None\<rparr>"

definition alice_row :: IUser where
  "alice_row =
     \<lparr>id' = alice_id, name = ''Alice'', email = ''alice@x'',
      password = ''$argon2id$v=19$m=65536,t=3,p=4$c2FsdA$digest-of-s3cret'', salt = ''c2FsdA'',
      role = Some ''user'', created_at = Some ''2025-01-01T00:00:00+00:00'',
      updated_at = Some ''2025-01-01T00:00:00+00:00'', lastLogin = None\<rparr>"

definition bob_row :: IUser where
  "bob_row =
     \<lparr>id' = bob_id, name = ''Bob'', email = ''bob@x'',
      password = ''$argon2id$v=19$m=65536,t=3,p=4$cGVwcGVy$digest-of-hunter2'', salt = ''cGVwcGVy'',
      role = Some ''user'', created_at = Some ''2025-02-02T00:00:00+00:00'',
      updated_at = Some ''2025-02-02T00:00:00+00:00'', lastLogin = None\<rparr>"

definition example_db :: users_db where
  "example_db = \<lparr>rows = [alice_row, bob_row], rls = False\<rparr>"

text \<open>Requests and failures used in the examples.\<close>

definition dave_id :: string where
  "dave_id = ''d4d4d4d4-0000-4000-8000-000000000004''"

definition carol_data :: userData where
  "carol_data =
     \<lparr>dto_name = ''Carol'', dto_email = ''carol@x'',
      dto_password = ''$argon2id$v=19$m=65536,t=3,p=4$Y2Fyb2w$digest-of-carol'',
      dto_salt = ''Y2Fyb2w''\<rparr>"

definition alice_again :: userData where
  "alice_again =
     \<lparr>dto_name = ''Alice'', dto_email = ''Alice@x'',
      dto_password = ''$argon2id$v=19$m=65536,t=3,p=4$c2FsdDI$digest-of-other'',
      dto_salt = ''c2FsdDI''\<rparr>"

definition padded :: userData where
  "padded =
     carol_data\<lparr>dto_password := replicate 255 (CHR ''p'') @ '' '',
                dto_salt := replicate 255 (CHR ''s'') @ '' ''\<rparr>"

definition rename_patch :: IUser_Partial where
  "rename_patch =
     \<lparr>p_id = None, p_name = Some ''Roberta'', p_email = None, p_password = None, p_salt = None,
      p_role = None, p_created_at = None, p_updated_at = None, p_lastLogin = None\<rparr>"

definition connection_lost :: "string \<Rightarrow> pg_error" where
  "connection_lost m = \<lparr>message = m, details = [], hint = [], code = ''08006''\<rparr>"

definition refused :: "string \<Rightarrow> pg_error" where
  "refused host =
     \<lparr>message = ''connection to server at '' @ host @ '', port 5432 failed: Connection refused'',
      details = [], hint = [], code = ''08006''\<rparr>"

section \<open>Session tokens\<close>

text \<open>Modelled from the spec: the Session Claims of section 3 (principal identifier, tenant
  identifier, issued-at and expiry timestamp). The sources hold no session code; times
  are counted in seconds.\<close>

record Claims =
  principal_id :: string
  tenant_id :: string
  issued_at :: nat
  expiry :: nat

text \<open>Modelled from the spec: a presented token (section 4.2). It either fails the
  structure check, or it has the structure of a token: the claims and a signature
  segment, a string of bytes.\<close>

datatype token = Unstructured string | Signed Claims string

text \<open>Modelled from the spec: the three failures of \<open>validate\<close> in the taxonomy of
  section 7.\<close>

datatype token_error = MissingToken | MalformedToken | ExpiredToken

text \<open>Modelled from the spec: \<open>issue(principal) -> token\<close> of section 4.2, which the
  sources do not hold. The token embeds the principal's identifier, the tenant identifier
  (equal to it, section 3), the time of issue and an expiry computed from the configured
  time-to-live. \<open>sign\<close> is the signature under the server-held secret.\<close>

definition issue :: "(Claims \<Rightarrow> string) \<Rightarrow> nat \<Rightarrow> nat \<Rightarrow> IUser \<Rightarrow> token" where
  "issue sign ttl t p =
     (let c = \<lparr>principal_id = id' p, tenant_id = id' p,
               issued_at = t, expiry = t + ttl\<rparr>
      in Signed c (sign c))"

text \<open>Modelled from the spec: \<open>validate(token) -> Claims\<close> of section 4.2, which the
  sources do not hold: ``fails with \<open>MissingToken\<close> if no bearer token is present,
  \<open>MalformedToken\<close> if the signature or structure check fails, \<open>ExpiredToken\<close> if current
  time exceeds the expiry claim, and otherwise returns Claims'', in this order. \<open>t\<close> is
  the current time.\<close>

definition validate :: "(Claims \<Rightarrow> string) \<Rightarrow> nat \<Rightarrow> token option \<Rightarrow> token_error + Claims" where
  "validate sign t bearer =
     (case bearer of
        None \<Rightarrow> Inl MissingToken
      | Some (Unstructured s) \<Rightarrow> Inl MalformedToken
      | Some (Signed c sg) \<Rightarrow>
          if sg \<noteq> sign c then Inl MalformedToken
          else if expiry c < t then Inl ExpiredToken
          else Inr c)"

text \<open>Modelled from the spec: what section 4.2 calls the structure check and the signature
  check of a presented token, as a predicate of its own.\<close>

definition checks_pass :: "(Claims \<Rightarrow> string) \<Rightarrow> token \<Rightarrow> bool" where
  "checks_pass sign tok =
     (case tok of Unstructured s \<Rightarrow> False | Signed c sg \<Rightarrow> sg = sign c)"

text \<open>Modelled from the spec: ``current time exceeds the expiry claim'' (section 4.2) of
  the token presented, as a predicate of its own.\<close>

definition past_expiry :: "nat \<Rightarrow> token option \<Rightarrow> bool" where
  "past_expiry t bearer =
     (case bearer of Some (Signed c sg) \<Rightarrow> expiry c < t | _ \<Rightarrow> False)"

text \<open>A stand-in for the signature in the examples.\<close>

definition example_sign :: "Claims \<Rightarrow> string" where
  "example_sign c = ''hs256:'' @ rev (principal_id c) @ rev (tenant_id c)"

section \<open>Properties\<close>

subsection \<open>The repository's outcome as a function of the store's answer\<close>

lemma create_returned:
  "returned (create supabase v db) =
     (case error (fst (supabase (Insert_select_single v) db)) of
        Some e \<Rightarrow> Inl (Error (''Failed to create user: '' @ message e))
      | None \<Rightarrow> Inr (data (fst (supabase (Insert_select_single v) db))))"
  by (simp add: create_def split: prod.splits option.splits)

lemma update_returned:
  "returned (update supabase i p db) =
     (case error (fst (supabase (Update_eq_select_single p Col_id i) db)) of
        Some e \<Rightarrow> Inl (Error (''Failed to update user: '' @ message e))
      | None \<Rightarrow> Inr (data (fst (supabase (Update_eq_select_single p Col_id i) db))))"
  by (simp add: update_def split: prod.splits option.splits)

lemma findByEmail_returned:
  "returned (findByEmail supabase x db) =
     (case error (fst (supabase (Select_eq_single Col_email x) db)) of
        Some e \<Rightarrow>
          if code e \<noteq> ''PGRST116''
          then Inl (Error (''Failed to find user by email: '' @ message e))
          else Inr (data (fst (supabase (Select_eq_single Col_email x) db)))
      | None \<Rightarrow> Inr (data (fst (supabase (Select_eq_single Col_email x) db))))"
  by (simp add: findByEmail_def split: prod.splits option.splits)

lemma findById_returned:
  "returned (findById supabase x db) =
     (case error (fst (supabase (Select_eq_single Col_id x) db)) of
        Some e \<Rightarrow>
          if code e \<noteq> ''PGRST116''
          then Inl (Error (''Failed to find user by id: '' @ message e))
          else Inr (data (fst (supabase (Select_eq_single Col_id x) db)))
      | None \<Rightarrow> Inr (data (fst (supabase (Select_eq_single Col_id x) db))))"
  by (simp add: findById_def split: prod.splits option.splits)

lemma create_store: "store (create supabase v db) = snd (supabase (Insert_select_single v) db)"
  by (simp add: create_def split: prod.splits option.splits)

lemma update_store:
  "store (update supabase i p db) = snd (supabase (Update_eq_select_single p Col_id i) db)"
  by (simp add: update_def split: prod.splits option.splits)

lemma findByEmail_store:
  "store (findByEmail supabase x db) = snd (supabase (Select_eq_single Col_email x) db)"
  by (simp add: findByEmail_def split: prod.splits option.splits)

lemma findById_store:
  "store (findById supabase x db) = snd (supabase (Select_eq_single Col_id x) db)"
  by (simp add: findById_def split: prod.splits option.splits)

lemma create_logged:
  "error (fst (supabase (Insert_select_single v) db)) = Some e \<Longrightarrow>
   logged (create supabase v db)
     = [Silly ''Creating user in database'', Log_error ''Error creating user: %o'' e]"
  by (simp add: create_def case_prod_beta Let_def)

lemma update_logged:
  "error (fst (supabase (Update_eq_select_single p Col_id i) db)) = Some e \<Longrightarrow>
   logged (update supabase i p db)
     = [Silly ''Updating user in database'', Log_error ''Error updating user: %o'' e]"
  by (simp add: update_def case_prod_beta Let_def)

lemma findByEmail_logged:
  "error (fst (supabase (Select_eq_single Col_email x) db)) = Some e \<Longrightarrow> code e \<noteq> ''PGRST116'' \<Longrightarrow>
   logged (findByEmail supabase x db)
     = [Silly ''Finding user by email'', Log_error ''Error finding user by email: %o'' e]"
  by (simp add: findByEmail_def case_prod_beta Let_def)

lemma findById_logged:
  "error (fst (supabase (Select_eq_single Col_id x) db)) = Some e \<Longrightarrow> code e \<noteq> ''PGRST116'' \<Longrightarrow>
   logged (findById supabase x db)
     = [Silly ''Finding user by id'', Log_error ''Error finding user by id: %o'' e]"
  by (simp add: findById_def case_prod_beta Let_def)

lemma recording_findById:
  "snd (store (findById (recording supabase) i (db, sent))) = sent @ [Select_eq_single Col_id i]"
  by (simp add: findById_store recording_def split: prod.splits)

lemma recording_create:
  "snd (store (create (recording supabase) v (db, sent))) = sent @ [Insert_select_single v]"
  by (simp add: create_store recording_def split: prod.splits)

subsection \<open>The answers of the users table\<close>

lemma error_of_failures [simp]:
  "error (pg_fail c m) \<noteq> None"
  "error (unique_violation n) \<noteq> None"
  "error rls_violation \<noteq> None"
  "error (single []) \<noteq> None"
  by (simp_all add: pg_fail_def unique_violation_def rls_violation_def single_def)

lemma policy_same_id: "id' r = id' r' \<Longrightarrow> policy env d r = policy env d r'"
  by (simp add: policy_def)


lemma findByEmail_users_store:
  "fault env = None \<Longrightarrow>
   returned (findByEmail (users_store env) x d) =
     (case filter (\<lambda>r. policy env d r \<and> email r = x) (rows d) of
        [r] \<Rightarrow> Inr (Some r) | _ \<Rightarrow> Inr None)"
  by (simp add: findByEmail_returned users_store_def pg_select_def bad_filter_def matches_def
      single_def pg_fail_def split: list.splits)

lemma findByEmail_users_store_Some:
  assumes "returned (findByEmail (users_store env) x d) = Inr (Some r)"
  shows "fault env = None \<and> filter (\<lambda>r. policy env d r \<and> email r = x) (rows d) = [r]"
proof (cases "fault env")
  case None
  with assms show ?thesis
    by (simp add: findByEmail_users_store split: list.splits)
next
  case (Some e)
  with assms show ?thesis
    by (simp add: findByEmail_returned users_store_def split: if_splits)
qed

lemma findById_users_store:
  "fault env = None \<Longrightarrow> uuid_in env x = Some u \<Longrightarrow>
   returned (findById (users_store env) x d) =
     (case filter (\<lambda>r. policy env d r \<and> id' r = u) (rows d) of
        [r] \<Rightarrow> Inr (Some r) | _ \<Rightarrow> Inr None)"
  by (simp add: findById_returned users_store_def pg_select_def bad_filter_def matches_def
      single_def pg_fail_def split: list.splits)

lemma findById_users_store_Some:
  assumes "returned (findById (users_store env) x d) = Inr (Some r)"
  shows "fault env = None \<and> uuid_in env x = Some (id' r)
         \<and> filter (\<lambda>r'. policy env d r' \<and> id' r' = id' r) (rows d) = [r]"
proof (cases "fault env")
  case None
  show ?thesis
  proof (cases "uuid_in env x")
    case N: None
    with None assms show ?thesis
      by (simp add: findById_returned users_store_def pg_select_def bad_filter_def
          invalid_uuid_def pg_fail_def)
  next
    case (Some u)
    from assms have f: "filter (\<lambda>r'. policy env d r' \<and> id' r' = u) (rows d) = [r]"
      by (simp add: findById_users_store [OF None Some] split: list.splits)
    then have "r \<in> set (filter (\<lambda>r'. policy env d r' \<and> id' r' = u) (rows d))"
      by simp
    then have "id' r = u" by simp
    with f None Some show ?thesis by simp
  qed
next
  case (Some e)
  with assms show ?thesis
    by (simp add: findById_returned users_store_def split: if_splits)
qed

lemma find_users_store_unchanged:
  "store (findByEmail (users_store env) x d) = d"
  "store (findById (users_store env) x d) = d"
  by (simp_all add: findByEmail_store findById_store users_store_def pg_select_def
      split: option.splits)

lemma varchar_in_failed: "varchar_in n s = Inl e \<Longrightarrow> error e \<noteq> None"
  by (auto simp: varchar_in_def not_text_def value_too_long_def pg_fail_def split: if_splits)

lemma varchar_in_short: "varchar_in n s = Inr t \<Longrightarrow> char_length s \<le> n \<Longrightarrow> t = s"
  by (auto simp: varchar_in_def split: if_splits)

lemma varchar_in_long:
  "varchar_in n s = Inr t \<Longrightarrow> n < char_length s \<Longrightarrow>
   t = take_chars n s \<and> list_all (\<lambda>c. c = CHR '' '') (drop (length (take_chars n s)) s)"
  by (auto simp: varchar_in_def split: if_splits)

lemma varchar_userData_failed: "varchar_userData v = Inl e \<Longrightarrow> error e \<noteq> None"
  by (auto simp: varchar_userData_def dest: varchar_in_failed split: sum.splits)

lemma varchar_userData_taken:
  "varchar_userData v = Inr t \<Longrightarrow>
   varchar_in 255 (dto_name v) = Inr (dto_name t)
   \<and> varchar_in 255 (dto_email v) = Inr (dto_email t)
   \<and> varchar_in 255 (dto_password v) = Inr (dto_password t)
   \<and> varchar_in 255 (dto_salt v) = Inr (dto_salt t)"
  by (auto simp: varchar_userData_def split: sum.splits)

lemma pg_insert_ok:
  "error (fst (pg_insert env v d)) = None \<longleftrightarrow>
     (\<exists>t. varchar_userData v = Inr t \<and> policy env d (new_row env t)
          \<and> uuid_generate_v4 env \<notin> set (map id' (rows d))
          \<and> dto_email t \<notin> set (map email (rows d)))"
proof (cases "varchar_userData v")
  case (Inl e)
  with varchar_userData_failed [OF Inl] show ?thesis
    by (simp add: pg_insert_def)
next
  case (Inr t)
  then show ?thesis
    by (auto simp: pg_insert_def Let_def new_row_def pg_fail_def rls_violation_def
        unique_violation_def)
qed

lemma pg_insert_ok_result:
  assumes "error (fst (pg_insert env v d)) = None"
  shows "\<exists>t. varchar_userData v = Inr t
     \<and> pg_insert env v d = (\<lparr>data = Some (new_row env t), error = None\<rparr>,
                            d\<lparr>rows := rows d @ [new_row env t]\<rparr>)"
proof -
  from assms obtain t where t: "varchar_userData v = Inr t"
    and "policy env d (new_row env t)" "uuid_generate_v4 env \<notin> set (map id' (rows d))"
    and "dto_email t \<notin> set (map email (rows d))"
    by (auto simp: pg_insert_ok)
  then show ?thesis
    by (simp add: pg_insert_def Let_def new_row_def)
qed

lemma pg_insert_failed:
  "error (fst (pg_insert env v d)) = Some e \<Longrightarrow> snd (pg_insert env v d) = d"
  by (auto simp: pg_insert_def Let_def split: if_splits sum.splits)


lemma pg_insert_email_taken:
  "fits v \<Longrightarrow> policy env d (new_row env v) \<Longrightarrow> uuid_generate_v4 env \<notin> set (map id' (rows d))
   \<Longrightarrow> dto_email v \<in> set (map email (rows d))
   \<Longrightarrow> fst (pg_insert env v d) = unique_violation ''users_email_key''"
  by (auto simp: pg_insert_def Let_def fits_def new_row_def)

lemma create_users_store_Inr:
  assumes "returned (create (users_store env) v d) = Inr x"
  shows "fault env = None
         \<and> (\<exists>t. varchar_userData v = Inr t \<and> x = Some (new_row env t)
                \<and> store (create (users_store env) v d) = d\<lparr>rows := rows d @ [new_row env t]\<rparr>)"
proof (cases "fault env")
  case None
  from assms have ok: "error (fst (pg_insert env v d)) = None"
    by (simp add: create_returned users_store_def None split: option.splits)
  from pg_insert_ok_result [OF ok] obtain t where "varchar_userData v = Inr t"
    and "pg_insert env v d = (\<lparr>data = Some (new_row env t), error = None\<rparr>,
                              d\<lparr>rows := rows d @ [new_row env t]\<rparr>)"
    by blast
  with assms None show ?thesis
    by (simp add: create_returned create_store users_store_def)
next
  case (Some e)
  with assms show ?thesis by (simp add: create_returned users_store_def)
qed

lemma create_users_store_Inl:
  assumes "returned (create (users_store env) v d) = Inl x"
  shows "store (create (users_store env) v d) = d"
proof (cases "fault env")
  case None
  from assms obtain e where "error (fst (pg_insert env v d)) = Some e"
    by (auto simp: create_returned users_store_def None split: option.splits)
  from pg_insert_failed [OF this] None show ?thesis
    by (simp add: create_store users_store_def)
next
  case (Some e)
  then show ?thesis by (simp add: create_store users_store_def)
qed

lemma varchar_option_failed: "varchar_option n v = Inl e \<Longrightarrow> error e \<noteq> None"
  by (auto simp: varchar_option_def dest: varchar_in_failed split: option.splits sum.splits)

lemma varchar_option_None: "varchar_option n None = Inr t \<Longrightarrow> t = None"
  by (simp add: varchar_option_def)

lemma varchar_patch_failed: "varchar_patch p = Inl e \<Longrightarrow> error e \<noteq> None"
  by (auto simp: varchar_patch_def dest: varchar_option_failed split: sum.splits)

lemma varchar_patch_taken:
  assumes "varchar_patch p = Inr q"
  shows "p_id q = p_id p \<and> p_created_at q = p_created_at p \<and> p_updated_at q = p_updated_at p
     \<and> p_lastLogin q = p_lastLogin p
     \<and> varchar_option 255 (p_name p) = Inr (p_name q)
     \<and> varchar_option 255 (p_email p) = Inr (p_email q)
     \<and> varchar_option 255 (p_password p) = Inr (p_password q)
     \<and> varchar_option 255 (p_salt p) = Inr (p_salt q)
     \<and> varchar_option 50 (p_role p) = Inr (p_role q)"
  using assms by (auto simp: varchar_patch_def split: sum.splits)

lemma pg_update_ok:
  assumes "error (fst (pg_update env p c x d)) = None"
  shows "\<exists>old q. varchar_patch p = Inr q
     \<and> filter (\<lambda>r. policy env d r \<and> matches env c x r) (rows d) = [old]
     \<and> bad_filter env c x = None
     \<and> pg_update env p c x d =
         (\<lparr>data = Some (update_updated_at_column env (set_columns env q old)), error = None\<rparr>,
          d\<lparr>rows := map (\<lambda>r. if policy env d r \<and> matches env c x r
                              then update_updated_at_column env (set_columns env q old) else r)
                        (rows d)\<rparr>)"
proof -
  from assms have ne: "\<not> patch_empty p"
    by (auto simp: pg_update_def)
  from assms ne have bp: "bad_patch env p = None"
    by (cases "bad_patch env p") (auto simp: pg_update_def bad_patch_def check_input_def
        unknown_column_def invalid_uuid_def invalid_timestamp_def
        split: if_splits option.splits)
  from assms ne bp obtain q where q: "varchar_patch p = Inr q"
    by (cases "varchar_patch p") (auto simp: pg_update_def dest: varchar_patch_failed)
  from assms ne bp q have bf: "bad_filter env c x = None"
    by (cases "bad_filter env c x") (auto simp: pg_update_def bad_filter_def invalid_uuid_def
        split: if_splits filter_column.splits)
  from assms ne bp q bf obtain old
    where one: "filter (\<lambda>r. policy env d r \<and> matches env c x r) (rows d) = [old]"
    by (auto simp: pg_update_def split: list.splits)
  from assms ne bp q bf one show ?thesis
    by (auto simp: pg_update_def Let_def split: if_splits)
qed

lemma update_users_store_Inr:
  assumes "returned (update (users_store env) i p d) = Inr x"
  shows "fault env = None \<and> error (fst (pg_update env p Col_id i d)) = None
     \<and> x = data (fst (pg_update env p Col_id i d))
     \<and> store (update (users_store env) i p d) = snd (pg_update env p Col_id i d)"
proof (cases "fault env")
  case None
  with assms show ?thesis
    by (simp add: update_returned update_store users_store_def split: option.splits)
next
  case (Some e)
  with assms show ?thesis by (simp add: update_returned users_store_def)
qed

subsection \<open>Tenant isolation of a lookup\<close>

text \<open>
  Claim C1, as the code has it. \<open>findById\<close> takes an id and nothing of the caller: the one
  request it sends filters on the column \<open>id\<close> with that id, and on no tenant. What keeps
  one tenant from another's row is the row policy of the store alone:
  \<^item> where the policy \<open>auth.uid() = id\<close> applies to the client, the lookup of a row whose id
    is not the client's \<open>auth.uid()\<close> returns \<open>null\<close> and changes nothing,
  \<^item> which is also what the lookup of an id that no row has returns;
  \<^item> where the policy does not apply, the row with that id is returned.
\<close>

theorem findById_isolation_is_the_stores_policy:
  "snd (store (findById (recording supabase) i (db, []))) = [Select_eq_single Col_id i]
   \<and> (rls d \<and> fault env = None \<and> uuid_in env i = Some u \<and> auth_uid env \<noteq> Some u
        \<longrightarrow> returned (findById (users_store env) i d) = Inr None
            \<and> store (findById (users_store env) i d) = d)
   \<and> (fault env = None \<and> uuid_in env i = Some u \<and> u \<notin> set (map id' (rows d))
        \<longrightarrow> returned (findById (users_store env) i d) = Inr None
            \<and> store (findById (users_store env) i d) = d)
   \<and> (\<not> rls d \<and> fault env = None \<and> uuid_in env i = Some (id' r)
        \<and> filter (\<lambda>r'. id' r' = id' r) (rows d) = [r]
        \<longrightarrow> returned (findById (users_store env) i d) = Inr (Some r))"
proof -
  have a: "snd (store (findById (recording supabase) i (db, []))) = [Select_eq_single Col_id i]"
    by (simp add: recording_findById)
  have b: "returned (findById (users_store env) i d) = Inr None"
    if "rls d" "fault env = None" "uuid_in env i = Some u" "auth_uid env \<noteq> Some u"
  proof -
    have "filter (\<lambda>r. policy env d r \<and> id' r = u) (rows d) = []"
      using that by (auto simp: policy_def filter_empty_conv)
    with that show ?thesis by (simp add: findById_users_store)
  qed
  have c: "returned (findById (users_store env) i d) = Inr None"
    if "fault env = None" "uuid_in env i = Some u" "u \<notin> set (map id' (rows d))"
  proof -
    have "filter (\<lambda>r. policy env d r \<and> id' r = u) (rows d) = []"
      using that by (auto simp: filter_empty_conv)
    with that show ?thesis by (simp add: findById_users_store)
  qed
  have e: "returned (findById (users_store env) i d) = Inr (Some r)"
    if "\<not> rls d" "fault env = None" "uuid_in env i = Some (id' r)"
       "filter (\<lambda>r'. id' r' = id' r) (rows d) = [r]"
    using that by (simp add: findById_users_store policy_def)
  from a b c e show ?thesis
    by (simp add: find_users_store_unchanged)
qed

theorem findById_isolation_is_the_stores_policy_witness:
  "snd (store (findById (recording (users_store example_env)) bob_id (example_db, [])))
     = [Select_eq_single Col_id bob_id]
   \<and> auth_uid example_env \<noteq> Some bob_id
   \<and> returned (findById (users_store example_env) bob_id (example_db\<lparr>rls := True\<rparr>)) = Inr None
   \<and> returned (findById (users_store example_env) carol_id example_db) = Inr None
   \<and> returned (findById (users_store example_env) bob_id example_db) = Inr (Some bob_row)"
proof -
  have h1: "rls (example_db\<lparr>rls := True\<rparr>) \<and> fault example_env = None
      \<and> uuid_in example_env bob_id = Some bob_id \<and> auth_uid example_env \<noteq> Some bob_id"
    by code_simp
  have h2: "fault example_env = None \<and> uuid_in example_env carol_id = Some carol_id
      \<and> carol_id \<notin> set (map id' (rows example_db))"
    by code_simp
  have h3: "\<not> rls example_db \<and> fault example_env = None
      \<and> uuid_in example_env bob_id = Some (id' bob_row)
      \<and> filter (\<lambda>r'. id' r' = id' bob_row) (rows example_db) = [bob_row]"
    by code_simp
  from h1 h2 h3
    findById_isolation_is_the_stores_policy
      [of "users_store example_env" bob_id example_db "example_db\<lparr>rls := True\<rparr>" example_env bob_id]
    findById_isolation_is_the_stores_policy
      [of "users_store example_env" carol_id example_db example_db example_env carol_id]
    findById_isolation_is_the_stores_policy
      [of "users_store example_env" bob_id example_db example_db example_env bob_id bob_row]
  show ?thesis by blast
qed

text \<open>
  The claim as the spec states it, that a lookup on behalf of tenant A never returns
  tenant B's row whether or not the store has row policies, fails where the policies do
  not apply: the client acts for Alice and \<open>findById\<close> hands it Bob's row.
\<close>

theorem findById_returns_another_tenants_row:
  "auth_uid example_env = Some alice_id \<and> id' bob_row \<noteq> alice_id \<and> \<not> rls example_db
   \<and> returned (findById (users_store example_env) bob_id example_db) = Inr (Some bob_row)"
  by code_simp

subsection \<open>What a read path returns\<close>

text \<open>
  Claim C2, as the code has it. The repository returns what the store delivers and
  removes no member: with no error, \<open>findByEmail\<close>, \<open>findById\<close>, \<open>create\<close> and \<open>update\<close>
  return the \<open>data\<close> of the answer as it is; and a row that \<open>findByEmail\<close> or \<open>findById\<close>
  reads from the users table is a row of the table, \<open>password\<close> and \<open>salt\<close> included.
\<close>

theorem repository_returns_the_row_as_stored:
  "(error (fst (supabase (Select_eq_single Col_email x) db)) = None
      \<longrightarrow> returned (findByEmail supabase x db)
            = Inr (data (fst (supabase (Select_eq_single Col_email x) db))))
   \<and> (error (fst (supabase (Select_eq_single Col_id y) db)) = None
      \<longrightarrow> returned (findById supabase y db)
            = Inr (data (fst (supabase (Select_eq_single Col_id y) db))))
   \<and> (error (fst (supabase (Insert_select_single v) db)) = None
      \<longrightarrow> returned (create supabase v db)
            = Inr (data (fst (supabase (Insert_select_single v) db))))
   \<and> (error (fst (supabase (Update_eq_select_single p Col_id y) db)) = None
      \<longrightarrow> returned (update supabase y p db)
            = Inr (data (fst (supabase (Update_eq_select_single p Col_id y) db))))
   \<and> (returned (findByEmail (users_store env) x d) = Inr (Some r) \<longrightarrow> r \<in> set (rows d))
   \<and> (returned (findById (users_store env) y d) = Inr (Some r') \<longrightarrow> r' \<in> set (rows d))"
proof -
  have a: "r \<in> set (rows d)" if "returned (findByEmail (users_store env) x d) = Inr (Some r)"
  proof -
    from findByEmail_users_store_Some [OF that]
    have "r \<in> set (filter (\<lambda>r. policy env d r \<and> email r = x) (rows d))" by simp
    then show ?thesis by simp
  qed
  have b: "r' \<in> set (rows d)" if "returned (findById (users_store env) y d) = Inr (Some r')"
  proof -
    from findById_users_store_Some [OF that]
    have "r' \<in> set (filter (\<lambda>r. policy env d r \<and> id' r = id' r') (rows d))" by simp
    then show ?thesis by simp
  qed
  from a b show ?thesis
    by (simp add: findByEmail_returned findById_returned create_returned update_returned)
qed

theorem repository_returns_the_row_as_stored_witness:
  "returned (findByEmail (users_store example_env) ''bob@x'' example_db) = Inr (Some bob_row)
   \<and> returned (findById (users_store example_env) bob_id example_db) = Inr (Some bob_row)
   \<and> bob_row \<in> set (rows example_db)
   \<and> returned (findByEmail (users_store example_env) ''bob@x'' example_db)
       = Inr (data (fst (users_store example_env (Select_eq_single Col_email ''bob@x'') example_db)))
   \<and> returned (findById (users_store example_env) bob_id example_db)
       = Inr (data (fst (users_store example_env (Select_eq_single Col_id bob_id) example_db)))
   \<and> returned (create (users_store example_env) alice_again example_db)
       = Inr (data (fst (users_store example_env (Insert_select_single alice_again) example_db)))
   \<and> returned (update (users_store example_env) bob_id
          \<lparr>p_id = None, p_name = None, p_email = None, p_password = None, p_salt = None,
           p_role = Some ''owner'', p_created_at = None, p_updated_at = None, p_lastLogin = None\<rparr>
          example_db)
       = Inr (data (fst (users_store example_env
            (Update_eq_select_single
               \<lparr>p_id = None, p_name = None, p_email = None, p_password = None, p_salt = None,
                p_role = Some ''owner'', p_created_at = None, p_updated_at = None,
                p_lastLogin = None\<rparr> Col_id bob_id) example_db)))"
proof -
  let ?p = "\<lparr>p_id = None, p_name = None, p_email = None, p_password = None, p_salt = None,
             p_role = Some ''owner'', p_created_at = None, p_updated_at = None,
             p_lastLogin = None\<rparr>"
  have h1: "error (fst (users_store example_env (Select_eq_single Col_email ''bob@x'') example_db)) = None"
    by code_simp
  have h2: "error (fst (users_store example_env (Select_eq_single Col_id bob_id) example_db)) = None"
    by code_simp
  have h3: "error (fst (users_store example_env (Insert_select_single alice_again) example_db)) = None"
    by code_simp
  have h4: "error (fst (users_store example_env (Update_eq_select_single ?p Col_id bob_id) example_db)) = None"
    by code_simp
  have h5: "returned (findByEmail (users_store example_env) ''bob@x'' example_db) = Inr (Some bob_row)"
    by code_simp
  have h6: "returned (findById (users_store example_env) bob_id example_db) = Inr (Some bob_row)"
    by code_simp
  from h1 h2 h3 h4 h5 h6
    repository_returns_the_row_as_stored
      [of "users_store example_env" "''bob@x''" example_db bob_id alice_again ?p
          example_env example_db bob_row bob_row]
  show ?thesis by blast
qed

text \<open>
  The claim as the spec states it, that digest and salt are absent from what the read
  paths return, fails: both lookups return Alice's row with its \<open>password\<close> and \<open>salt\<close>.
\<close>

theorem find_returns_password_and_salt:
  "returned (findByEmail (users_store example_env) ''alice@x'' example_db) = Inr (Some alice_row)
   \<and> returned (findById (users_store example_env) alice_id example_db) = Inr (Some alice_row)
   \<and> password alice_row = ''$argon2id$v=19$m=65536,t=3,p=4$c2FsdA$digest-of-s3cret''
   \<and> salt alice_row = ''c2FsdA''"
  by code_simp

subsection \<open>The store's error signal\<close>

text \<open>
  Claim C3, as the code has it. The repository has two outcomes for an error of the
  store, not three kinds. \<open>create\<close> and \<open>update\<close> throw
  \<open>Error(prefix + error.message)\<close> on every error, a unique-constraint violation and the
  zero-row \<open>PGRST116\<close> included, and return \<open>data\<close> otherwise. \<open>findByEmail\<close> and \<open>findById\<close>
  return \<open>data\<close> when there is no error or the error code is \<open>PGRST116\<close>, and throw
  \<open>Error(prefix + error.message)\<close> on every other error.
\<close>

theorem repository_outcomes:
  "returned (create supabase v db) =
     (case error (fst (supabase (Insert_select_single v) db)) of
        Some e \<Rightarrow> Inl (Error (''Failed to create user: '' @ message e))
      | None \<Rightarrow> Inr (data (fst (supabase (Insert_select_single v) db))))
   \<and> returned (update supabase i p db) =
     (case error (fst (supabase (Update_eq_select_single p Col_id i) db)) of
        Some e \<Rightarrow> Inl (Error (''Failed to update user: '' @ message e))
      | None \<Rightarrow> Inr (data (fst (supabase (Update_eq_select_single p Col_id i) db))))
   \<and> returned (findByEmail supabase x db) =
     (case error (fst (supabase (Select_eq_single Col_email x) db)) of
        Some e \<Rightarrow>
          if code e = ''PGRST116''
          then Inr (data (fst (supabase (Select_eq_single Col_email x) db)))
          else Inl (Error (''Failed to find user by email: '' @ message e))
      | None \<Rightarrow> Inr (data (fst (supabase (Select_eq_single Col_email x) db))))
   \<and> returned (findById supabase i db) =
     (case error (fst (supabase (Select_eq_single Col_id i) db)) of
        Some e \<Rightarrow>
          if code e = ''PGRST116''
          then Inr (data (fst (supabase (Select_eq_single Col_id i) db)))
          else Inl (Error (''Failed to find user by id: '' @ message e))
      | None \<Rightarrow> Inr (data (fst (supabase (Select_eq_single Col_id i) db))))"
  by (simp add: create_returned update_returned findByEmail_returned findById_returned
      split: option.splits)

theorem repository_outcomes_witness:
  "returned (create (users_store example_env) carol_data
       (store (create (users_store example_env) carol_data example_db)))
     = Inl (Error (''Failed to create user: '' @ ''duplicate key value violates unique constraint ''
                   @ quoted ''users_pkey''))
   \<and> returned (update (users_store example_env) carol_id rename_patch example_db)
     = Inl (Error (''Failed to update user: ''
                   @ ''JSON object requested, multiple (or no) rows returned''))
   \<and> returned (findByEmail (users_store example_env) ''carol@x'' example_db) = Inr None
   \<and> returned (findById (users_store example_env) ''carol'' example_db)
     = Inl (Error (''Failed to find user by id: '' @ ''invalid input syntax for type uuid: ''
                   @ quoted ''carol''))"
proof -
  have e1: "fst (users_store example_env (Insert_select_single carol_data)
               (store (create (users_store example_env) carol_data example_db)))
            = unique_violation ''users_pkey''"
    by code_simp
  have e2: "fst (users_store example_env (Update_eq_select_single rename_patch Col_id carol_id)
               example_db)
            = pg_fail ''PGRST116'' ''JSON object requested, multiple (or no) rows returned''"
    by code_simp
  have e3: "fst (users_store example_env (Select_eq_single Col_email ''carol@x'') example_db)
            = pg_fail ''PGRST116'' ''JSON object requested, multiple (or no) rows returned''"
    by code_simp
  have e4: "fst (users_store example_env (Select_eq_single Col_id ''carol'') example_db)
            = invalid_uuid ''carol''"
    by code_simp
  from repository_outcomes
      [of "users_store example_env" carol_data
          "store (create (users_store example_env) carol_data example_db)"
          carol_id rename_patch "''carol@x''"]
  have a: "returned (create (users_store example_env) carol_data
       (store (create (users_store example_env) carol_data example_db)))
     = Inl (Error (''Failed to create user: '' @ ''duplicate key value violates unique constraint ''
                   @ quoted ''users_pkey''))"
    by (simp add: e1 unique_violation_def pg_fail_def)
  from repository_outcomes
      [of "users_store example_env" carol_data example_db carol_id rename_patch "''carol@x''"]
  have b: "returned (update (users_store example_env) carol_id rename_patch example_db)
     = Inl (Error (''Failed to update user: ''
                   @ ''JSON object requested, multiple (or no) rows returned''))"
    and c: "returned (findByEmail (users_store example_env) ''carol@x'' example_db) = Inr None"
    by (simp_all add: e2 e3 pg_fail_def)
  from repository_outcomes
      [of "users_store example_env" carol_data example_db "''carol''" rename_patch "''carol@x''"]
  have d: "returned (findById (users_store example_env) ''carol'' example_db)
     = Inl (Error (''Failed to find user by id: '' @ ''invalid input syntax for type uuid: ''
                   @ quoted ''carol''))"
    by (simp add: e4 invalid_uuid_def pg_fail_def)
  from a b c d show ?thesis by simp
qed

text \<open>
  The claim as the spec states it, a mapping onto \<open>NotFound\<close>, \<open>Conflict\<close> and
  \<open>StoreUnavailable\<close> that never conflates them, fails: an \<open>update\<close> that reaches no row
  throws, and its outcome is the outcome of a lost connection that carries the same
  text; a \<open>create\<close> that violates the \<open>UNIQUE\<close> constraint on \<open>email\<close> throws, and its
  outcome is the outcome of a lost connection that carries the same text.
\<close>

theorem conflict_and_missing_row_are_thrown_like_any_failure:
  "returned (update (users_store example_env) carol_id rename_patch example_db)
     = Inl (Error ''Failed to update user: JSON object requested, multiple (or no) rows returned'')
   \<and> returned (update (users_store example_env) carol_id rename_patch example_db)
     = returned (update
         (users_store (example_env\<lparr>fault := Some (connection_lost
            ''JSON object requested, multiple (or no) rows returned'')\<rparr>))
         carol_id rename_patch example_db)
   \<and> returned (create (users_store example_env)
        (carol_data\<lparr>dto_email := ''alice@x''\<rparr>) example_db)
     = Inl (Error (''Failed to create user: duplicate key value violates unique constraint ''
                   @ quoted ''users_email_key''))
   \<and> returned (create (users_store example_env)
        (carol_data\<lparr>dto_email := ''alice@x''\<rparr>) example_db)
     = returned (create
         (users_store (example_env\<lparr>fault := Some (connection_lost
            (''duplicate key value violates unique constraint '' @ quoted ''users_email_key''))\<rparr>))
         (carol_data\<lparr>dto_email := ''alice@x''\<rparr>) example_db)"
  by code_simp

subsection \<open>Lookups that find no row\<close>

text \<open>
  Claim C4. Whenever the store reports ``no row found'' to \<open>findByEmail\<close> or \<open>findById\<close>,
  the call does not throw: it returns \<open>null\<close> (\<open>Inr None\<close>). Whenever the store reports any
  other error, the call throws (\<open>Inl\<close>). So ``looked, found nothing'' and ``could not look''
  are different outcomes, for every client, argument and store state.
\<close>

theorem find_no_row_found_returns_null:
  "(no_row_found (fst (supabase (Select_eq_single Col_email x) db))
      \<longrightarrow> returned (findByEmail supabase x db) = Inr None)
   \<and> (no_row_found (fst (supabase (Select_eq_single Col_id y) db))
      \<longrightarrow> returned (findById supabase y db) = Inr None)
   \<and> (store_failed (fst (supabase (Select_eq_single Col_email x) db))
      \<longrightarrow> isl (returned (findByEmail supabase x db)))
   \<and> (store_failed (fst (supabase (Select_eq_single Col_id y) db))
      \<longrightarrow> isl (returned (findById supabase y db)))"
  by (auto simp: no_row_found_def store_failed_def findByEmail_returned findById_returned
      split: option.splits)

theorem find_no_row_found_returns_null_witness:
  "no_row_found (fst (users_store example_env (Select_eq_single Col_email ''carol@x'') example_db))
   \<and> returned (findByEmail (users_store example_env) ''carol@x'' example_db) = Inr None
   \<and> no_row_found (fst (users_store example_env (Select_eq_single Col_id carol_id) example_db))
   \<and> returned (findById (users_store example_env) carol_id example_db) = Inr None
   \<and> store_failed (fst (users_store (example_env\<lparr>fault := Some (refused ''10.0.0.5'')\<rparr>)
        (Select_eq_single Col_email ''carol@x'') example_db))
   \<and> isl (returned (findByEmail (users_store (example_env\<lparr>fault := Some (refused ''10.0.0.5'')\<rparr>))
        ''carol@x'' example_db))
   \<and> store_failed (fst (users_store example_env (Select_eq_single Col_id ''carol'') example_db))
   \<and> isl (returned (findById (users_store example_env) ''carol'' example_db))"
proof -
  let ?down = "users_store (example_env\<lparr>fault := Some (refused ''10.0.0.5'')\<rparr>)"
  have a: "no_row_found (fst (users_store example_env (Select_eq_single Col_email ''carol@x'') example_db))"
    by code_simp
  have b: "no_row_found (fst (users_store example_env (Select_eq_single Col_id carol_id) example_db))"
    by code_simp
  have c: "store_failed (fst (?down (Select_eq_single Col_email ''carol@x'') example_db))"
    by code_simp
  have d: "store_failed (fst (users_store example_env (Select_eq_single Col_id ''carol'') example_db))"
    by code_simp
  from a b c d
    find_no_row_found_returns_null [of "users_store example_env" "''carol@x''" example_db carol_id]
    find_no_row_found_returns_null [of ?down "''carol@x''" example_db "''carol''"]
    find_no_row_found_returns_null [of "users_store example_env" "''carol@x''" example_db "''carol''"]
  show ?thesis by blast
qed

subsection \<open>Comparison of login handles\<close>




subsection \<open>Creating the same login handle twice\<close>

text \<open>
  Claim C6, as the code has it. After a \<open>create\<close> that succeeded, every \<open>create\<close> with the
  same \<open>email\<close> throws \<open>Error('Failed to create user: ' + message)\<close>, whatever else holds of
  the second call, and leaves the table exactly as the first \<open>create\<close> left it. When
  nothing else is wrong with the second call, the message is the store's report of the
  violated constraint \<open>users_email_key\<close>. The error is the one \<open>create\<close> throws for every
  failure: the code has no kind \<open>DuplicateIdentity\<close>.
\<close>

theorem second_create_fails_and_leaves_the_table:
  assumes "returned (create (users_store env1) v1 d) = Inr x"
    and "dto_email v2 = dto_email v1"
  shows "(\<exists>m. returned (create (users_store env2) v2 (store (create (users_store env1) v1 d)))
               = Inl (Error (''Failed to create user: '' @ m)))
     \<and> store (create (users_store env2) v2 (store (create (users_store env1) v1 d)))
         = store (create (users_store env1) v1 d)
     \<and> (fault env2 = None \<and> fits v2
         \<and> policy env2 (store (create (users_store env1) v1 d)) (new_row env2 v2)
         \<and> uuid_generate_v4 env2 \<notin> set (map id' (rows (store (create (users_store env1) v1 d))))
        \<longrightarrow> returned (create (users_store env2) v2 (store (create (users_store env1) v1 d)))
            = Inl (Error (''Failed to create user: ''
                          @ ''duplicate key value violates unique constraint ''
                          @ quoted ''users_email_key'')))"
proof -
  define d1 where "d1 = store (create (users_store env1) v1 d)"
  from create_users_store_Inr [OF assms(1)] obtain t1
    where t1: "varchar_userData v1 = Inr t1"
      and d1: "rows d1 = rows d @ [new_row env1 t1]"
    by (auto simp: d1_def)
  from varchar_userData_taken [OF t1] assms(2)
  have email1: "varchar_in 255 (dto_email v2) = Inr (dto_email t1)" by simp
  have stored: "dto_email t1 \<in> set (map email (rows d1))"
    by (simp add: d1 new_row_def)
  have not_ok: "error (fst (pg_insert env2 v2 d1)) \<noteq> None"
  proof
    assume "error (fst (pg_insert env2 v2 d1)) = None"
    then obtain t2 where t2: "varchar_userData v2 = Inr t2"
      and free: "dto_email t2 \<notin> set (map email (rows d1))"
      by (auto simp: pg_insert_ok)
    from varchar_userData_taken [OF t2] email1 have "dto_email t2 = dto_email t1" by simp
    with free stored show False by simp
  qed
  have taken: "dto_email v2 \<in> set (map email (rows d1))" if "fits v2"
  proof -
    from that have "varchar_userData v2 = Inr v2" by (simp add: fits_def)
    from varchar_userData_taken [OF this] email1 have "dto_email v2 = dto_email t1" by simp
    with stored show ?thesis by simp
  qed
  have thrown: "\<exists>m. returned (create (users_store env2) v2 d1)
                      = Inl (Error (''Failed to create user: '' @ m))"
  proof (cases "fault env2")
    case None
    with not_ok show ?thesis
      by (auto simp: create_returned users_store_def split: option.splits)
  next
    case (Some e)
    then show ?thesis by (simp add: create_returned users_store_def)
  qed
  then obtain m where "returned (create (users_store env2) v2 d1)
                        = Inl (Error (''Failed to create user: '' @ m))" ..
  from create_users_store_Inl [OF this]
  have unchanged: "store (create (users_store env2) v2 d1) = d1" .
  have msg: "returned (create (users_store env2) v2 d1)
               = Inl (Error (''Failed to create user: ''
                             @ ''duplicate key value violates unique constraint ''
                             @ quoted ''users_email_key''))"
    if "fault env2 = None" "fits v2" "policy env2 d1 (new_row env2 v2)"
       "uuid_generate_v4 env2 \<notin> set (map id' (rows d1))"
    using that pg_insert_email_taken [OF that(2) that(3) that(4) taken [OF that(2)]]
    by (simp add: create_returned users_store_def unique_violation_def pg_fail_def)
  from thrown unchanged msg show ?thesis
    unfolding d1_def by blast
qed

theorem second_create_fails_and_leaves_the_table_witness:
  "returned (create (users_store example_env) carol_data example_db)
     = Inr (Some (new_row example_env carol_data))
   \<and> returned (create (users_store (example_env\<lparr>uuid_generate_v4 := dave_id\<rparr>)) carol_data
        (store (create (users_store example_env) carol_data example_db)))
       = Inl (Error (''Failed to create user: ''
                     @ ''duplicate key value violates unique constraint ''
                     @ quoted ''users_email_key''))
   \<and> store (create (users_store (example_env\<lparr>uuid_generate_v4 := dave_id\<rparr>)) carol_data
        (store (create (users_store example_env) carol_data example_db)))
       = store (create (users_store example_env) carol_data example_db)"
proof -
  have h1: "returned (create (users_store example_env) carol_data example_db)
     = Inr (Some (new_row example_env carol_data))"
    by code_simp
  have h2: "fault (example_env\<lparr>uuid_generate_v4 := dave_id\<rparr>) = None \<and> fits carol_data
     \<and> policy (example_env\<lparr>uuid_generate_v4 := dave_id\<rparr>)
         (store (create (users_store example_env) carol_data example_db))
         (new_row (example_env\<lparr>uuid_generate_v4 := dave_id\<rparr>) carol_data)
     \<and> uuid_generate_v4 (example_env\<lparr>uuid_generate_v4 := dave_id\<rparr>)
         \<notin> set (map id' (rows (store (create (users_store example_env) carol_data example_db))))"
    by code_simp
  from h1 h2
    second_create_fails_and_leaves_the_table
      [of example_env carol_data example_db _ carol_data
          "example_env\<lparr>uuid_generate_v4 := dave_id\<rparr>", OF h1 refl]
  show ?thesis by blast
qed

text \<open>
  The claim as the spec states it, a failure of the kind \<open>DuplicateIdentity\<close>, fails:
  the second \<open>create\<close> throws the generic \<open>Error\<close> whose only content is the store's text,
  the same outcome as a \<open>create\<close> that lost its connection with that text.
\<close>

theorem duplicate_create_throws_the_generic_error:
  "returned (create (users_store example_env) carol_data example_db)
     = Inr (Some (new_row example_env carol_data))
   \<and> returned (create (users_store (example_env\<lparr>uuid_generate_v4 := dave_id\<rparr>)) carol_data
        (store (create (users_store example_env) carol_data example_db)))
       = Inl (Error (''Failed to create user: duplicate key value violates unique constraint ''
                     @ quoted ''users_email_key''))
   \<and> returned (create (users_store (example_env\<lparr>uuid_generate_v4 := dave_id\<rparr>)) carol_data
        (store (create (users_store example_env) carol_data example_db)))
       = returned (create
           (users_store (example_env\<lparr>fault := Some (connection_lost
              (''duplicate key value violates unique constraint '' @ quoted ''users_email_key''))\<rparr>))
           carol_data example_db)"
  by code_simp

subsection \<open>Validating a session token\<close>

text \<open>
  Claim C7, with the order of the checks made explicit. For every signature function,
  time and presented token:
  \<^item> \<open>validate\<close> fails with \<open>MissingToken\<close> iff no bearer token is present;
  \<^item> with \<open>MalformedToken\<close> iff a token is present and its structure or signature check
    fails;
  \<^item> with \<open>ExpiredToken\<close> iff a token is present, passes both checks, and the current
    time exceeds its expiry claim;
  \<^item> changing one byte of the signature segment of a well-signed token gives
    \<open>MalformedToken\<close>, at every time;
  \<^item> a token issued for a principal validates, up to its expiry, to claims that carry
    the principal's identifier, and after its expiry to \<open>ExpiredToken\<close>.
\<close>

theorem validate_outcomes:
  "(validate sign t bearer = Inl MissingToken) = (bearer = None)
   \<and> (validate sign t bearer = Inl MalformedToken)
       = (case bearer of None \<Rightarrow> False | Some tok \<Rightarrow> \<not> checks_pass sign tok)
   \<and> (validate sign t bearer = Inl ExpiredToken)
       = (case bearer of None \<Rightarrow> False | Some tok \<Rightarrow> checks_pass sign tok \<and> past_expiry t bearer)
   \<and> (i < length (sign c) \<and> b \<noteq> sign c ! i
       \<longrightarrow> validate sign t (Some (Signed c ((sign c)[i := b]))) = Inl MalformedToken)
   \<and> validate sign t (Some (issue sign ttl t0 p))
       = (if t0 + ttl < t then Inl ExpiredToken
          else Inr \<lparr>principal_id = id' p, tenant_id = id' p,
                    issued_at = t0, expiry = t0 + ttl\<rparr>)"
proof -
  have tamper: "(sign c)[i := b] \<noteq> sign c" if "i < length (sign c)" "b \<noteq> sign c ! i"
  proof
    assume "(sign c)[i := b] = sign c"
    then have "(sign c)[i := b] ! i = sign c ! i" by simp
    with that show False by simp
  qed
  show ?thesis
    using tamper
    by (auto simp: validate_def checks_pass_def past_expiry_def issue_def Let_def
        split: option.splits token.splits)
qed

theorem validate_outcomes_witness:
  "2 < length (example_sign \<lparr>principal_id = bob_id, tenant_id = bob_id, issued_at = 100, expiry = 200\<rparr>)
   \<and> CHR ''X'' \<noteq> example_sign \<lparr>principal_id = bob_id, tenant_id = bob_id, issued_at = 100, expiry = 200\<rparr> ! 2
   \<and> validate example_sign 150
       (Some (Signed \<lparr>principal_id = bob_id, tenant_id = bob_id, issued_at = 100, expiry = 200\<rparr>
          ((example_sign \<lparr>principal_id = bob_id, tenant_id = bob_id, issued_at = 100, expiry = 200\<rparr>)
             [2 := CHR ''X''])))
       = Inl MalformedToken
   \<and> validate example_sign 150 (Some (issue example_sign 100 100 bob_row))
       = Inr \<lparr>principal_id = bob_id, tenant_id = bob_id, issued_at = 100, expiry = 200\<rparr>
   \<and> validate example_sign 201 (Some (issue example_sign 100 100 bob_row)) = Inl ExpiredToken"
proof -
  let ?c = "\<lparr>principal_id = bob_id, tenant_id = bob_id, issued_at = 100, expiry = 200\<rparr>"
  have h: "2 < length (example_sign ?c) \<and> CHR ''X'' \<noteq> example_sign ?c ! 2"
    by code_simp
  have i: "id' bob_row = bob_id" by code_simp
  from h i
    validate_outcomes [of example_sign 150 None 2 ?c "CHR ''X''" 100 100 bob_row]
    validate_outcomes [of example_sign 201 None 2 ?c "CHR ''X''" 100 100 bob_row]
  show ?thesis by simp
qed

text \<open>
  The claim as it is stated, \<open>ExpiredToken\<close> iff the current time exceeds the expiry
  claim, fails for a token that is both past its expiry and badly signed: one byte of
  the signature of an issued token is changed and the token is presented after its
  expiry; the signature check comes first and the outcome is \<open>MalformedToken\<close>.
\<close>

theorem tampered_and_expired_token_is_malformed:
  "issue example_sign 100 100 bob_row
     = Signed \<lparr>principal_id = bob_id, tenant_id = bob_id, issued_at = 100, expiry = 200\<rparr>
         (example_sign \<lparr>principal_id = bob_id, tenant_id = bob_id, issued_at = 100, expiry = 200\<rparr>)
   \<and> past_expiry 201
       (Some (Signed \<lparr>principal_id = bob_id, tenant_id = bob_id, issued_at = 100, expiry = 200\<rparr>
          ((example_sign \<lparr>principal_id = bob_id, tenant_id = bob_id, issued_at = 100, expiry = 200\<rparr>)
             [2 := CHR ''X''])))
   \<and> validate example_sign 201
       (Some (Signed \<lparr>principal_id = bob_id, tenant_id = bob_id, issued_at = 100, expiry = 200\<rparr>
          ((example_sign \<lparr>principal_id = bob_id, tenant_id = bob_id, issued_at = 100, expiry = 200\<rparr>)
             [2 := CHR ''X''])))
       = Inl MalformedToken
   \<and> validate example_sign 201
       (Some (Signed \<lparr>principal_id = bob_id, tenant_id = bob_id, issued_at = 100, expiry = 200\<rparr>
          ((example_sign \<lparr>principal_id = bob_id, tenant_id = bob_id, issued_at = 100, expiry = 200\<rparr>)
             [2 := CHR ''X''])))
       \<noteq> Inl ExpiredToken"
  by code_simp

subsection \<open>What a failure of the store tells the caller\<close>

text \<open>
  Claim C8, as the code has it. When the store answers with an error (for the lookups:
  one whose code is not \<open>PGRST116\<close>), the \<open>Error\<close> thrown to the caller is the operation's
  fixed prefix followed by the store's \<open>message\<close>, word for word, and the whole error
  object goes to the logger. Of the store's error only the message reaches the caller:
  two failed \<open>create\<close>s have the same outcome exactly when the store's messages are the
  same.
\<close>

theorem thrown_error_is_prefix_and_store_message:
  "(error (fst (supabase (Insert_select_single v) db)) = Some e
      \<longrightarrow> returned (create supabase v db) = Inl (Error (''Failed to create user: '' @ message e))
          \<and> logged (create supabase v db)
              = [Silly ''Creating user in database'', Log_error ''Error creating user: %o'' e])
   \<and> (error (fst (supabase (Update_eq_select_single p Col_id i) db)) = Some e
      \<longrightarrow> returned (update supabase i p db) = Inl (Error (''Failed to update user: '' @ message e))
          \<and> logged (update supabase i p db)
              = [Silly ''Updating user in database'', Log_error ''Error updating user: %o'' e])
   \<and> (error (fst (supabase (Select_eq_single Col_email x) db)) = Some e \<and> code e \<noteq> ''PGRST116''
      \<longrightarrow> returned (findByEmail supabase x db)
            = Inl (Error (''Failed to find user by email: '' @ message e))
          \<and> logged (findByEmail supabase x db)
              = [Silly ''Finding user by email'', Log_error ''Error finding user by email: %o'' e])
   \<and> (error (fst (supabase (Select_eq_single Col_id i) db)) = Some e \<and> code e \<noteq> ''PGRST116''
      \<longrightarrow> returned (findById supabase i db)
            = Inl (Error (''Failed to find user by id: '' @ message e))
          \<and> logged (findById supabase i db)
              = [Silly ''Finding user by id'', Log_error ''Error finding user by id: %o'' e])
   \<and> (error (fst (supabase (Insert_select_single v) db)) = Some e
       \<and> error (fst (supabase' (Insert_select_single v') db')) = Some e'
      \<longrightarrow> (returned (create supabase v db) = returned (create supabase' v' db'))
            = (message e = message e'))"
  by (simp add: create_returned update_returned findByEmail_returned findById_returned
      create_logged update_logged findByEmail_logged findById_logged)

theorem thrown_error_is_prefix_and_store_message_witness:
  "returned (create (users_store (example_env\<lparr>fault := Some (refused ''10.0.0.5'')\<rparr>))
       carol_data example_db)
     = Inl (Error (''Failed to create user: '' @ message (refused ''10.0.0.5'')))
   \<and> logged (create (users_store (example_env\<lparr>fault := Some (refused ''10.0.0.5'')\<rparr>))
       carol_data example_db)
     = [Silly ''Creating user in database'',
        Log_error ''Error creating user: %o'' (refused ''10.0.0.5'')]
   \<and> returned (update (users_store (example_env\<lparr>fault := Some (refused ''10.0.0.5'')\<rparr>))
       bob_id rename_patch example_db)
     = Inl (Error (''Failed to update user: '' @ message (refused ''10.0.0.5'')))
   \<and> returned (findByEmail (users_store (example_env\<lparr>fault := Some (refused ''10.0.0.5'')\<rparr>))
       ''bob@x'' example_db)
     = Inl (Error (''Failed to find user by email: '' @ message (refused ''10.0.0.5'')))
   \<and> returned (findById (users_store (example_env\<lparr>fault := Some (refused ''10.0.0.5'')\<rparr>))
       bob_id example_db)
     = Inl (Error (''Failed to find user by id: '' @ message (refused ''10.0.0.5'')))
   \<and> (returned (create (users_store (example_env\<lparr>fault := Some (refused ''10.0.0.5'')\<rparr>))
          carol_data example_db)
        = returned (create (users_store (example_env\<lparr>fault := Some (refused ''10.0.0.6'')\<rparr>))
          carol_data example_db))
     = (message (refused ''10.0.0.5'') = message (refused ''10.0.0.6''))"
proof -
  let ?s = "users_store (example_env\<lparr>fault := Some (refused ''10.0.0.5'')\<rparr>)"
  let ?s' = "users_store (example_env\<lparr>fault := Some (refused ''10.0.0.6'')\<rparr>)"
  have h1: "error (fst (?s (Insert_select_single carol_data) example_db))
              = Some (refused ''10.0.0.5'')"
    by (simp add: users_store_def)
  have h2: "error (fst (?s (Update_eq_select_single rename_patch Col_id bob_id) example_db))
              = Some (refused ''10.0.0.5'')"
    by (simp add: users_store_def)
  have h3: "error (fst (?s (Select_eq_single Col_email ''bob@x'') example_db))
              = Some (refused ''10.0.0.5'') \<and> code (refused ''10.0.0.5'') \<noteq> ''PGRST116''"
    by (simp add: users_store_def refused_def)
  have h4: "error (fst (?s (Select_eq_single Col_id bob_id) example_db))
              = Some (refused ''10.0.0.5'') \<and> code (refused ''10.0.0.5'') \<noteq> ''PGRST116''"
    by (simp add: users_store_def refused_def)
  have h5: "error (fst (?s' (Insert_select_single carol_data) example_db))
              = Some (refused ''10.0.0.6'')"
    by (simp add: users_store_def)
  from h1 h2 h3 h4 h5
    thrown_error_is_prefix_and_store_message
      [of ?s carol_data example_db "refused ''10.0.0.5''" rename_patch bob_id "''bob@x''"
          ?s' carol_data example_db "refused ''10.0.0.6''"]
  show ?thesis by blast
qed

text \<open>
  The claim as the spec states it, that the caller-visible error is independent of the
  store's message, fails: the message of a refused connection, with the address of
  the database host, is part of the \<open>Error\<close> that \<open>create\<close> throws, and two store errors
  that differ in nothing but the message give different outcomes.
\<close>

theorem store_message_reaches_the_caller:
  "returned (create (users_store (example_env\<lparr>fault := Some (refused ''10.0.0.5'')\<rparr>))
       carol_data example_db)
     = Inl (Error
        ''Failed to create user: connection to server at 10.0.0.5, port 5432 failed: Connection refused'')
   \<and> returned (create (users_store (example_env\<lparr>fault := Some (refused ''10.0.0.5'')\<rparr>))
       carol_data example_db)
     \<noteq> returned (create (users_store (example_env\<lparr>fault := Some (refused ''10.0.0.6'')\<rparr>))
       carol_data example_db)
   \<and> code (refused ''10.0.0.5'') = code (refused ''10.0.0.6'')
   \<and> details (refused ''10.0.0.5'') = details (refused ''10.0.0.6'')
   \<and> hint (refused ''10.0.0.5'') = hint (refused ''10.0.0.6'')"
  by code_simp

subsection \<open>The frame of an update\<close>

text \<open>
  Claim C9. For every id and every partial update payload, a successful
  \<open>update(id, updateData)\<close> on the users table returns a row \<open>new\<close> and
  \<^item> the table had exactly one row \<open>old\<close> whose \<open>id\<close> is the one given;
  \<^item> the table afterwards is the table before with that row replaced by \<open>new\<close>: every row
    with another id is unchanged, and so is the setting of the row policies;
  \<^item> every column that \<open>updateData\<close> does not name has in \<open>new\<close> the value it had in \<open>old\<close>,
    except \<open>updated_at\<close>, which the trigger sets to \<open>NOW()\<close>.
\<close>

theorem update_changes_one_row_and_the_named_columns:
  assumes "returned (update (users_store env) i p d) = Inr x"
  shows "\<exists>old new u. x = Some new \<and> uuid_in env i = Some u
      \<and> filter (\<lambda>r. id' r = u) (rows d) = [old]
      \<and> rows (store (update (users_store env) i p d))
          = map (\<lambda>r. if id' r = u then new else r) (rows d)
      \<and> rls (store (update (users_store env) i p d)) = rls d
      \<and> (p_id p = None \<longrightarrow> id' new = id' old)
      \<and> (p_name p = None \<longrightarrow> name new = name old)
      \<and> (p_email p = None \<longrightarrow> email new = email old)
      \<and> (p_password p = None \<longrightarrow> password new = password old)
      \<and> (p_salt p = None \<longrightarrow> salt new = salt old)
      \<and> (p_role p = None \<longrightarrow> role new = role old)
      \<and> (p_created_at p = None \<longrightarrow> created_at new = created_at old)
      \<and> lastLogin new = lastLogin old
      \<and> updated_at new = Some (now env)"
proof -
  from update_users_store_Inr [OF assms]
  have ok: "error (fst (pg_update env p Col_id i d)) = None"
    and x: "x = data (fst (pg_update env p Col_id i d))"
    and st: "store (update (users_store env) i p d) = snd (pg_update env p Col_id i d)"
    by simp_all
  from pg_update_ok [OF ok] obtain old q
    where q: "varchar_patch p = Inr q"
      and one: "filter (\<lambda>r. policy env d r \<and> matches env Col_id i r) (rows d) = [old]"
      and bf: "bad_filter env Col_id i = None"
      and res: "pg_update env p Col_id i d =
         (\<lparr>data = Some (update_updated_at_column env (set_columns env q old)), error = None\<rparr>,
          d\<lparr>rows := map (\<lambda>r. if policy env d r \<and> matches env Col_id i r
                              then update_updated_at_column env (set_columns env q old) else r)
                        (rows d)\<rparr>)"
    by blast
  define new where "new = update_updated_at_column env (set_columns env q old)"
  from varchar_patch_taken [OF q]
  have named: "p_id q = p_id p" "p_created_at q = p_created_at p"
    "p_name p = None \<Longrightarrow> p_name q = None" "p_email p = None \<Longrightarrow> p_email q = None"
    "p_password p = None \<Longrightarrow> p_password q = None" "p_salt p = None \<Longrightarrow> p_salt q = None"
    "p_role p = None \<Longrightarrow> p_role q = None"
    by (auto dest: varchar_option_None)
  from bf obtain u where u: "uuid_in env i = Some u"
    by (auto simp: bad_filter_def split: if_splits)
  from one have "old \<in> set (filter (\<lambda>r. policy env d r \<and> matches env Col_id i r) (rows d))"
    by simp
  then have old: "policy env d old" "id' old = u"
    using u by (simp_all add: matches_def)
  have hit: "(policy env d r \<and> matches env Col_id i r) = (id' r = u)" for r
    using old u policy_same_id [of r old env d] by (auto simp: matches_def)
  from one have one': "filter (\<lambda>r. id' r = u) (rows d) = [old]"
    by (simp add: hit)
  from res st have rows': "rows (store (update (users_store env) i p d))
      = map (\<lambda>r. if id' r = u then new else r) (rows d)"
    by (simp add: hit new_def)
  from res st have rls': "rls (store (update (users_store env) i p d)) = rls d"
    by simp
  from res x have x': "x = Some new" by (simp add: new_def)
  have cols: "(p_id p = None \<longrightarrow> id' new = id' old)
      \<and> (p_name p = None \<longrightarrow> name new = name old)
      \<and> (p_email p = None \<longrightarrow> email new = email old)
      \<and> (p_password p = None \<longrightarrow> password new = password old)
      \<and> (p_salt p = None \<longrightarrow> salt new = salt old)
      \<and> (p_role p = None \<longrightarrow> role new = role old)
      \<and> (p_created_at p = None \<longrightarrow> created_at new = created_at old)
      \<and> lastLogin new = lastLogin old
      \<and> updated_at new = Some (now env)"
    using named by (auto simp: new_def update_updated_at_column_def set_columns_def)
  show ?thesis
    apply (rule exI [of _ old])
    apply (rule exI [of _ new])
    apply (rule exI [of _ u])
    using x' u one' rows' rls' cols
    apply simp
    done
qed

theorem update_changes_one_row_and_the_named_columns_witness:
  "returned (update (users_store example_env) bob_id rename_patch example_db)
     = Inr (Some (bob_row\<lparr>name := ''Roberta'', updated_at := Some (now example_env)\<rparr>))
   \<and> rows (store (update (users_store example_env) bob_id rename_patch example_db))
     = [alice_row, bob_row\<lparr>name := ''Roberta'', updated_at := Some (now example_env)\<rparr>]"
proof -
  have h: "returned (update (users_store example_env) bob_id rename_patch example_db)
     = Inr (Some (bob_row\<lparr>name := ''Roberta'', updated_at := Some (now example_env)\<rparr>))"
    by code_simp
  from update_changes_one_row_and_the_named_columns [OF h]
  obtain u new
    where a: "Some (bob_row\<lparr>name := ''Roberta'', updated_at := Some (now example_env)\<rparr>) = Some new"
      and b: "uuid_in example_env bob_id = Some u"
      and c: "rows (store (update (users_store example_env) bob_id rename_patch example_db))
                = map (\<lambda>r. if id' r = u then new else r) (rows example_db)"
    by blast
  have "uuid_in example_env bob_id = Some bob_id" by code_simp
  with b have u: "u = bob_id" by simp
  from a have n: "new = bob_row\<lparr>name := ''Roberta'', updated_at := Some (now example_env)\<rparr>"
    by simp
  have "map (\<lambda>r. if id' r = bob_id
        then bob_row\<lparr>name := ''Roberta'', updated_at := Some (now example_env)\<rparr> else r)
        (rows example_db)
      = [alice_row, bob_row\<lparr>name := ''Roberta'', updated_at := Some (now example_env)\<rparr>]"
    by code_simp
  with c have "rows (store (update (users_store example_env) bob_id rename_patch example_db))
     = [alice_row, bob_row\<lparr>name := ''Roberta'', updated_at := Some (now example_env)\<rparr>]"
    by (simp only: u n)
  with h show ?thesis by simp
qed

subsection \<open>What create stores\<close>

text \<open>
  Claim C10, as the code has it. \<open>create\<close> sends its argument to the store as it received
  it, in one insert request: the repository hashes and transforms nothing. A \<open>create\<close> on
  the users table that returns, returns the row it stored, and \<open>password\<close>, \<open>salt\<close>, \<open>name\<close>
  and \<open>email\<close> of that row are what their \<open>VARCHAR(255)\<close> columns make of the values
  supplied: a value of at most 255 characters is stored as supplied; a longer value is
  stored only if its excess characters are all blanks, and then as its first 255
  characters.
\<close>

theorem create_sends_userData_and_returns_the_stored_row:
  "snd (store (create (recording supabase) v (db, []))) = [Insert_select_single v]
   \<and> (returned (create (users_store env) v d) = Inr x
       \<longrightarrow> (\<exists>r. x = Some r
                \<and> rows (store (create (users_store env) v d)) = rows d @ [r]
                \<and> varchar_in 255 (dto_password v) = Inr (password r)
                \<and> varchar_in 255 (dto_salt v) = Inr (salt r)
                \<and> varchar_in 255 (dto_name v) = Inr (name r)
                \<and> varchar_in 255 (dto_email v) = Inr (email r)
                \<and> (char_length (dto_password v) \<le> 255 \<longrightarrow> password r = dto_password v)
                \<and> (char_length (dto_salt v) \<le> 255 \<longrightarrow> salt r = dto_salt v)
                \<and> (255 < char_length (dto_password v)
                      \<longrightarrow> password r = take_chars 255 (dto_password v))
                \<and> (255 < char_length (dto_salt v)
                      \<longrightarrow> salt r = take_chars 255 (dto_salt v))))"
proof -
  have "\<exists>r. x = Some r
                \<and> rows (store (create (users_store env) v d)) = rows d @ [r]
                \<and> varchar_in 255 (dto_password v) = Inr (password r)
                \<and> varchar_in 255 (dto_salt v) = Inr (salt r)
                \<and> varchar_in 255 (dto_name v) = Inr (name r)
                \<and> varchar_in 255 (dto_email v) = Inr (email r)
                \<and> (char_length (dto_password v) \<le> 255 \<longrightarrow> password r = dto_password v)
                \<and> (char_length (dto_salt v) \<le> 255 \<longrightarrow> salt r = dto_salt v)
                \<and> (255 < char_length (dto_password v)
                      \<longrightarrow> password r = take_chars 255 (dto_password v))
                \<and> (255 < char_length (dto_salt v)
                      \<longrightarrow> salt r = take_chars 255 (dto_salt v))"
    if "returned (create (users_store env) v d) = Inr x"
  proof -
    from create_users_store_Inr [OF that] obtain t
      where t: "varchar_userData v = Inr t" and x: "x = Some (new_row env t)"
        and st: "store (create (users_store env) v d) = d\<lparr>rows := rows d @ [new_row env t]\<rparr>"
      by blast
    note taken = varchar_userData_taken [OF t]
    from taken have w: "varchar_in 255 (dto_password v) = Inr (dto_password t)"
      and sl: "varchar_in 255 (dto_salt v) = Inr (dto_salt t)" by simp_all
    have "char_length (dto_password v) \<le> 255 \<longrightarrow> dto_password t = dto_password v"
      using varchar_in_short [OF w] by simp
    moreover have "char_length (dto_salt v) \<le> 255 \<longrightarrow> dto_salt t = dto_salt v"
      using varchar_in_short [OF sl] by simp
    moreover have "255 < char_length (dto_password v)
        \<longrightarrow> dto_password t = take_chars 255 (dto_password v)"
      using varchar_in_long [OF w] by simp
    moreover have "255 < char_length (dto_salt v) \<longrightarrow> dto_salt t = take_chars 255 (dto_salt v)"
      using varchar_in_long [OF sl] by simp
    ultimately show ?thesis
      using x st taken by (simp add: new_row_def)
  qed
  then show ?thesis by (simp add: recording_create)
qed

theorem create_sends_userData_and_returns_the_stored_row_witness:
  "snd (store (create (recording (users_store example_env)) carol_data (example_db, [])))
     = [Insert_select_single carol_data]
   \<and> returned (create (users_store example_env) carol_data example_db)
     = Inr (Some (new_row example_env carol_data))
   \<and> password (new_row example_env carol_data) = dto_password carol_data
   \<and> salt (new_row example_env carol_data) = dto_salt carol_data
   \<and> rows (store (create (users_store example_env) carol_data example_db))
     = rows example_db @ [new_row example_env carol_data]
   \<and> returned (create (users_store example_env) padded example_db)
     = Inr (Some ((new_row example_env padded)
              \<lparr>password := take_chars 255 (dto_password padded),
               salt := take_chars 255 (dto_salt padded)\<rparr>))"
proof -
  have h1: "returned (create (users_store example_env) carol_data example_db)
     = Inr (Some (new_row example_env carol_data))"
    by code_simp
  have h2: "char_length (dto_password carol_data) \<le> 255 \<and> char_length (dto_salt carol_data) \<le> 255"
    by code_simp
  have h3: "returned (create (users_store example_env) padded example_db)
     = Inr (Some ((new_row example_env padded)
              \<lparr>password := take_chars 255 (dto_password padded),
               salt := take_chars 255 (dto_salt padded)\<rparr>))"
    by code_simp
  have h4: "255 < char_length (dto_password padded) \<and> 255 < char_length (dto_salt padded)"
    by code_simp
  from h1 h2 h3 h4
    create_sends_userData_and_returns_the_stored_row
      [of "users_store example_env" carol_data example_db example_env example_db
          "Some (new_row example_env carol_data)"]
    create_sends_userData_and_returns_the_stored_row
      [of "users_store example_env" padded example_db example_env example_db
          "Some ((new_row example_env padded)
              \<lparr>password := take_chars 255 (dto_password padded),
               salt := take_chars 255 (dto_salt padded)\<rparr>)"]
  show ?thesis by auto
qed

text \<open>
  The claim as it is stated, that \<open>password\<close> and \<open>salt\<close> are stored exactly as supplied,
  fails for a value that is longer than its column and ends in blanks: a \<open>salt\<close> of 255
  letters and one blank is stored, and returned, without the blank.
\<close>

theorem over_long_salt_is_stored_truncated:
  "dto_salt padded = replicate 255 (CHR ''s'') @ '' ''
   \<and> returned (create (users_store example_env) padded example_db)
     = Inr (Some ((new_row example_env padded)
              \<lparr>password := replicate 255 (CHR ''p''), salt := replicate 255 (CHR ''s'')\<rparr>))
   \<and> salt ((new_row example_env padded)
              \<lparr>password := replicate 255 (CHR ''p''), salt := replicate 255 (CHR ''s'')\<rparr>)
     \<noteq> dto_salt padded
   \<and> last (rows (store (create (users_store example_env) padded example_db)))
     = (new_row example_env padded)
         \<lparr>password := replicate 255 (CHR ''p''), salt := replicate 255 (CHR ''s'')\<rparr>"
  by code_simp

end
